theory Spec2Isabelle
  imports Main "HOL-Library.Word"
begin

section \<open>The keyshare core of irmago (internal/keysharecore/operations.go)\<close>

text \<open>
  The operations of \<^verbatim>\<open>operations.go\<close> are embedded as HOL functions over an explicit
  \<open>Core\<close> record. The two in-memory stores of the core (\<open>commitmentData\<close> and
  \<open>authChallenges\<close>) are the only mutable state: an operation that touches them returns
  the updated core next to its result. The clock (\<^verbatim>\<open>time.Now().Unix()\<close>) and the
  output of \<^verbatim>\<open>crypto/rand\<close> are inputs of the operation that reads them, one input for
  each reading.
  The mutexes guard single map operations and are not modelled: every operation runs
  atomically.
\<close>

subsection \<open>Bytes and errors\<close>

type_synonym byte = "8 word"
type_synonym bytes = "byte list"

text \<open>
  The eight error values declared at the top of \<^verbatim>\<open>operations.go\<close>, the two ad-hoc
  \<^verbatim>\<open>errors.New\<close> values of \<^verbatim>\<open>GenerateChallenge\<close> and \<^verbatim>\<open>SetUserPublicKey\<close>
  (\<open>ErrOther\<close> with the message), and one value for each collaborator that can fail:
  the secrets container, the random source, the JWT library, the signature check and
  the commitment primitive.
\<close>

datatype error =
    ErrInvalidPin
  | ErrPinTooLong
  | ErrInvalidChallenge
  | ErrInvalidJWT
  | ErrExpiredJWT
  | ErrKeyNotFound
  | ErrUnknownCommit
  | ErrChallengeResponseRequired
  | ErrOther string
  | ErrDecryption
  | ErrInvalidID
  | ErrRandom
  | ErrJWTValidation
  | ErrSignatureInvalid

subsection \<open>encoding/base64, StdEncoding\<close>

text \<open>
  \<^verbatim>\<open>base64.StdEncoding\<close>: the standard alphabet with \<open>=\<close> padding. The decoder
  ignores carriage returns and line feeds, requires whole quanta of four characters,
  accepts padding only in the last quantum, and (not being in strict mode) does not
  look at the unused low bits of a padded quantum.
\<close>

definition encodeStd :: string where
  "encodeStd = ''ABCDEFGHIJKLMNOPQRSTUVWXYZabcdefghijklmnopqrstuvwxyz0123456789+/''"

definition encodeChar :: "nat \<Rightarrow> char" where
  "encodeChar n = encodeStd ! n"

fun indexOf :: "char \<Rightarrow> string \<Rightarrow> nat option" where
  "indexOf c [] = None"
| "indexOf c (x # xs) = (if c = x then Some 0 else map_option Suc (indexOf c xs))"

definition decodeMap :: "char \<Rightarrow> nat option" where
  "decodeMap c = indexOf c encodeStd"

fun EncodeToString :: "bytes \<Rightarrow> string" where
  "EncodeToString [] = []"
| "EncodeToString [a] =
     [encodeChar (unat a div 4), encodeChar ((unat a mod 4) * 16), CHR ''='', CHR ''='']"
| "EncodeToString [a, b] =
     [encodeChar (unat a div 4), encodeChar ((unat a mod 4) * 16 + unat b div 16),
      encodeChar ((unat b mod 16) * 4), CHR ''='']"
| "EncodeToString (a # b # c # rest) =
     [encodeChar (unat a div 4), encodeChar ((unat a mod 4) * 16 + unat b div 16),
      encodeChar ((unat b mod 16) * 4 + unat c div 64), encodeChar (unat c mod 64)]
     @ EncodeToString rest"

fun decodeQuanta :: "string \<Rightarrow> bytes option" where
  "decodeQuanta [] = Some []"
| "decodeQuanta (a # b # c # d # rest) =
     (if rest = [] \<and> d = CHR ''='' then
        (if c = CHR ''='' then
           (case (decodeMap a, decodeMap b) of
              (Some x, Some y) \<Rightarrow> Some [of_nat (x * 4 + y div 16)]
            | _ \<Rightarrow> None)
         else
           (case (decodeMap a, decodeMap b, decodeMap c) of
              (Some x, Some y, Some z) \<Rightarrow>
                Some [of_nat (x * 4 + y div 16), of_nat ((y mod 16) * 16 + z div 4)]
            | _ \<Rightarrow> None))
      else
        (case (decodeMap a, decodeMap b, decodeMap c, decodeMap d) of
           (Some x, Some y, Some z, Some w) \<Rightarrow>
             (case decodeQuanta rest of
                Some bs \<Rightarrow>
                  Some (of_nat (x * 4 + y div 16) # of_nat ((y mod 16) * 16 + z div 4)
                        # of_nat ((z mod 4) * 64 + w) # bs)
              | None \<Rightarrow> None)
         | _ \<Rightarrow> None))"
| "decodeQuanta _ = None"

definition DecodeString :: "string \<Rightarrow> bytes option" where
  "DecodeString s = decodeQuanta (filter (\<lambda>c. c \<noteq> CHR 0x0A \<and> c \<noteq> CHR 0x0D) s)"

text \<open>\<^verbatim>\<open>subtle.ConstantTimeCompare\<close>: 1 when the slices have equal length and contents.\<close>

definition ConstantTimeCompare :: "bytes \<Rightarrow> bytes \<Rightarrow> int" where
  "ConstantTimeCompare x y = (if x = y then 1 else 0)"

text \<open>\<^verbatim>\<open>(*big.Int).BitLen\<close>: the length of the absolute value in bits, 0 for 0.\<close>

fun bitLenNat :: "nat \<Rightarrow> nat" where
  "bitLenNat n = (if n = 0 then 0 else Suc (bitLenNat (n div 2)))"

declare bitLenNat.simps [simp del]

definition BitLen :: "int \<Rightarrow> nat" where
  "BitLen x = bitLenNat (nat \<bar>x\<bar>)"

text \<open>\<^verbatim>\<open>gabikeys.DefaultSystemParameters[1024].Lh\<close>, the bit length of challenges.\<close>

definition Lh :: nat where
  "Lh = 256"

subsection \<open>Keys, signatures and the attribute-scheme primitives\<close>

text \<open>
  Cryptography is symbolic. A key pair is a number; the public key of pair \<open>k\<close> is
  written with the constructor of its kind. A signature is described by what it verifies
  against, never by its bits.
\<close>

datatype verification_key = RSAPublicKey nat | ECDSAPublicKey nat

text \<open>
  \<^verbatim>\<open>irma.KeyshareChallengeData\<close>, the structure whose JSON serialisation the client
  signs in the challenge-response. The serialisation is injective on the two fields, so
  the signed message is the structure itself.
\<close>

record KeyshareChallengeData =
  Challenge :: bytes
  PIN :: string

text \<open>
  A \<^verbatim>\<open>response []byte\<close> as \<^verbatim>\<open>signed.Verify\<close> sees it: either an ECDSA signature made
  with key pair \<open>k\<close> over a message, or bytes that verify under no key.
\<close>

datatype signature_bytes =
    SignatureBy nat KeyshareChallengeData
  | NoSignature bytes

text \<open>\<^verbatim>\<open>signed.Verify(pk, bts, response)\<close>; \<open>None\<close> is the nil error.\<close>

definition signed_Verify ::
  "nat option \<Rightarrow> KeyshareChallengeData \<Rightarrow> signature_bytes \<Rightarrow> error option" where
  "signed_Verify pk msg response =
     (case pk of
        None \<Rightarrow> Some ErrSignatureInvalid
      | Some k \<Rightarrow>
          (case response of
             SignatureBy k' m \<Rightarrow> if k' = k \<and> m = msg then None else Some ErrSignatureInvalid
           | NoSignature _ \<Rightarrow> Some ErrSignatureInvalid))"

text \<open>
  The attribute-scheme library (gabi) is used through three functions only. Its public
  keys are opaque; the commitments and the response are the free terms built from the
  arguments the library receives.
\<close>

datatype gabi_PublicKey = GabiPublicKey nat

type_synonym PublicKeyIdentifier = "string \<times> nat"

datatype ProofPCommitment = ProofPCommitment gabi_PublicKey int int

datatype ProofP = KeyshareResponse int int int gabi_PublicKey

text \<open>
  \<^verbatim>\<open>gabi.NewKeyshareCommitments(secret, keys)\<close> draws a commit secret (the argument
  \<open>rnd\<close>, \<open>None\<close> when the random source fails) and returns it with one commitment
  for each key.
\<close>

definition NewKeyshareCommitments ::
  "int \<Rightarrow> gabi_PublicKey list \<Rightarrow> int option \<Rightarrow> error + (int \<times> ProofPCommitment list)" where
  "NewKeyshareCommitments secret keys rnd =
     (case rnd of
        None \<Rightarrow> Inl ErrRandom
      | Some commitSecret \<Rightarrow>
          Inr (commitSecret, map (\<lambda>key. ProofPCommitment key secret commitSecret) keys))"

subsection \<open>github.com/golang-jwt/jwt/v4\<close>

text \<open>
  The values a decoded claim can have. JSON numbers are decoded as \<^verbatim>\<open>float64\<close>; the
  time claims hold whole seconds, so a number is an \<open>int\<close> here.
\<close>

datatype json =
    JString string
  | JNumber int
  | JProofP ProofP
  | JNull

type_synonym MapClaims = "(string \<times> json) list"

datatype SigningMethod =
    SigningMethodRS256 | SigningMethodRS384 | SigningMethodRS512
  | SigningMethodPS256 | SigningMethodPS384 | SigningMethodPS512
  | SigningMethodES256 | SigningMethodES384 | SigningMethodES512
  | SigningMethodHS256 | SigningMethodHS384 | SigningMethodHS512
  | SigningMethodEdDSA | SigningMethodNone

text \<open>\<^verbatim>\<open>jwt.GetSigningMethod\<close>: the registered method of an \<open>alg\<close> header value.\<close>

definition GetSigningMethod :: "string \<Rightarrow> SigningMethod option" where
  "GetSigningMethod alg =
     (if alg = ''RS256'' then Some SigningMethodRS256
      else if alg = ''RS384'' then Some SigningMethodRS384
      else if alg = ''RS512'' then Some SigningMethodRS512
      else if alg = ''PS256'' then Some SigningMethodPS256
      else if alg = ''PS384'' then Some SigningMethodPS384
      else if alg = ''PS512'' then Some SigningMethodPS512
      else if alg = ''ES256'' then Some SigningMethodES256
      else if alg = ''ES384'' then Some SigningMethodES384
      else if alg = ''ES512'' then Some SigningMethodES512
      else if alg = ''HS256'' then Some SigningMethodHS256
      else if alg = ''HS384'' then Some SigningMethodHS384
      else if alg = ''HS512'' then Some SigningMethodHS512
      else if alg = ''EdDSA'' then Some SigningMethodEdDSA
      else if alg = ''none'' then Some SigningMethodNone
      else None)"

text \<open>
  A token whose three segments decode: the \<open>alg\<close> and \<open>kid\<close> header fields, the
  claims, and the signature segment, described by the public key under which it verifies
  for this header and these claims (\<open>None\<close>: under no key).
\<close>

record Token =
  Header_alg :: "string option"
  Header_kid :: "nat option"
  Claims :: MapClaims
  Signature :: "verification_key option"

text \<open>
  A token string as the parser sees it: \<open>Malformed\<close> when it does not split into three
  segments that decode to a JSON header and JSON claims, \<open>Compact\<close> otherwise.
\<close>

datatype jwt_string = Malformed string | Compact Token

text \<open>
  \<^verbatim>\<open>SigningMethod.Verify\<close>: the RSA methods need an RSA public key, the ECDSA methods
  an ECDSA public key; the other methods accept neither kind of key.
\<close>

fun method_accepts :: "SigningMethod \<Rightarrow> verification_key \<Rightarrow> bool" where
  "method_accepts SigningMethodRS256 (RSAPublicKey _) = True"
| "method_accepts SigningMethodRS384 (RSAPublicKey _) = True"
| "method_accepts SigningMethodRS512 (RSAPublicKey _) = True"
| "method_accepts SigningMethodPS256 (RSAPublicKey _) = True"
| "method_accepts SigningMethodPS384 (RSAPublicKey _) = True"
| "method_accepts SigningMethodPS512 (RSAPublicKey _) = True"
| "method_accepts SigningMethodES256 (ECDSAPublicKey _) = True"
| "method_accepts SigningMethodES384 (ECDSAPublicKey _) = True"
| "method_accepts SigningMethodES512 (ECDSAPublicKey _) = True"
| "method_accepts _ _ = False"

definition method_Verify ::
  "SigningMethod \<Rightarrow> verification_key option \<Rightarrow> verification_key \<Rightarrow> bool" where
  "method_Verify m sig key = (method_accepts m key \<and> sig = Some key)"

text \<open>
  The time checks of \<^verbatim>\<open>MapClaims\<close>. A claim that is absent, or the number 0, passes
  exactly when it is not required; a claim of another type fails. The comparison at
  \<open>cmp = exp\<close> differs between releases of v4 (\<open>\<le>\<close> in the first, \<open><\<close> later);
  the later one is taken.
\<close>

definition VerifyExpiresAt :: "MapClaims \<Rightarrow> int \<Rightarrow> bool \<Rightarrow> bool" where
  "VerifyExpiresAt m cmp req =
     (case map_of m ''exp'' of
        None \<Rightarrow> \<not> req
      | Some (JNumber exp) \<Rightarrow> if exp = 0 then \<not> req else cmp < exp
      | Some _ \<Rightarrow> False)"

definition VerifyIssuedAt :: "MapClaims \<Rightarrow> int \<Rightarrow> bool \<Rightarrow> bool" where
  "VerifyIssuedAt m cmp req =
     (case map_of m ''iat'' of
        None \<Rightarrow> \<not> req
      | Some (JNumber iat) \<Rightarrow> if iat = 0 then \<not> req else iat \<le> cmp
      | Some _ \<Rightarrow> False)"

definition VerifyNotBefore :: "MapClaims \<Rightarrow> int \<Rightarrow> bool \<Rightarrow> bool" where
  "VerifyNotBefore m cmp req =
     (case map_of m ''nbf'' of
        None \<Rightarrow> \<not> req
      | Some (JNumber nbf) \<Rightarrow> if nbf = 0 then \<not> req else nbf \<le> cmp
      | Some _ \<Rightarrow> False)"

text \<open>\<^verbatim>\<open>MapClaims.Valid()\<close> at clock \<open>now\<close>; \<open>True\<close> is the nil error.\<close>

definition MapClaims_Valid :: "MapClaims \<Rightarrow> int \<Rightarrow> bool" where
  "MapClaims_Valid m now =
     (VerifyExpiresAt m now False \<and> VerifyIssuedAt m now False \<and> VerifyNotBefore m now False)"

text \<open>
  \<^verbatim>\<open>Parser.ParseUnverified\<close>: decode the segments, decode the claims into the claims
  type of the caller (\<open>decodes\<close> says whether they fit), look the method up.
\<close>

definition ParseUnverified ::
  "jwt_string \<Rightarrow> (MapClaims \<Rightarrow> bool) \<Rightarrow> error + (Token \<times> SigningMethod)" where
  "ParseUnverified tokenString decodes =
     (case tokenString of
        Malformed _ \<Rightarrow> Inl ErrJWTValidation
      | Compact token \<Rightarrow>
          if \<not> decodes (Claims token) then Inl ErrJWTValidation
          else
            (case Header_alg token of
               None \<Rightarrow> Inl ErrJWTValidation
             | Some alg \<Rightarrow>
                 (case GetSigningMethod alg of
                    None \<Rightarrow> Inl ErrJWTValidation
                  | Some m \<Rightarrow> Inr (token, m))))"

text \<open>
  \<^verbatim>\<open>Parser.ParseWithClaims\<close>: parse, ask the key function for the key, validate the
  claims (\<open>valid\<close> is the \<^verbatim>\<open>Valid()\<close> of the claims type), verify the signature. An
  error of the key function is wrapped in the library's validation error.
\<close>

definition ParseWithClaims ::
  "jwt_string \<Rightarrow> (MapClaims \<Rightarrow> bool) \<Rightarrow> (MapClaims \<Rightarrow> int \<Rightarrow> bool) \<Rightarrow>
   (SigningMethod \<Rightarrow> error + verification_key) \<Rightarrow> int \<Rightarrow> error + Token" where
  "ParseWithClaims tokenString decodes valid keyFunc now =
     (case ParseUnverified tokenString decodes of
        Inl e \<Rightarrow> Inl e
      | Inr (token, m) \<Rightarrow>
          (case keyFunc m of
             Inl e \<Rightarrow> Inl ErrJWTValidation
           | Inr key \<Rightarrow>
               if valid (Claims token) now \<and> method_Verify m (Signature token) key
               then Inr token
               else Inl ErrJWTValidation))"

text \<open>\<^verbatim>\<open>jwt.Parse\<close>: the claims type is \<^verbatim>\<open>MapClaims\<close>, which every JSON object fits.\<close>

definition jwt_Parse ::
  "jwt_string \<Rightarrow> (SigningMethod \<Rightarrow> error + verification_key) \<Rightarrow> int \<Rightarrow> error + Token" where
  "jwt_Parse tokenString keyFunc now =
     ParseWithClaims tokenString (\<lambda>_. True) MapClaims_Valid keyFunc now"

subsection \<open>The secrets container\<close>

text \<open>
  The plaintext record, with the fields \<^verbatim>\<open>operations.go\<close> reads and writes. The client
  public key is a pointer in the source: \<open>None\<close> is nil.
\<close>

record unencryptedUserSecrets =
  Pin :: string
  KeyshareSecret :: int
  ID :: bytes
  PublicKey :: "nat option"

text \<open>
  Modelled from the spec: the encrypted blob and the functions of the container, whose
  source file (the storage part of package keysharecore) is not among the sources. The
  spec gives authenticated encryption under a process-wide symmetric key, where any
  tamper or wrong key yields a decryption failure. A blob is therefore either the seal,
  under some key, of a plaintext record, or bytes that no key opens.
\<close>

datatype UserSecrets = Sealed nat unencryptedUserSecrets | Unsealable bytes

text \<open>
  Modelled from the spec: the PIN field has a fixed width and a longer input fails with
  \<open>PinTooLong\<close>. The spec leaves the width open; the repository pads to 64 bytes.
\<close>

definition pinWidth :: nat where
  "pinWidth = 64"

text \<open>Modelled from the spec: \<^verbatim>\<open>setPin\<close>, the PIN write of the container.\<close>

definition setPin :: "unencryptedUserSecrets \<Rightarrow> string \<Rightarrow> error + unencryptedUserSecrets" where
  "setPin s pin = (if length pin > pinWidth then Inl ErrPinTooLong else Inr (s\<lparr>Pin := pin\<rparr>))"

text \<open>
  Modelled from the spec: \<^verbatim>\<open>verifyPin\<close>, the comparison of the stored PIN with the
  input; a mismatch is \<open>InvalidPin\<close>. \<open>None\<close> is the nil error.
\<close>

definition verifyPin :: "unencryptedUserSecrets \<Rightarrow> string \<Rightarrow> error option" where
  "verifyPin s pin = (if Pin s = pin then None else Some ErrInvalidPin)"

text \<open>
  Modelled from the spec: \<^verbatim>\<open>setID\<close>, the write of the 32-byte token-id.
  \<^verbatim>\<open>operations.go\<close> only ever passes 32 bytes.
\<close>

definition setID :: "unencryptedUserSecrets \<Rightarrow> bytes \<Rightarrow> error + unencryptedUserSecrets" where
  "setID s tokenID = (if length tokenID = 32 then Inr (s\<lparr>ID := tokenID\<rparr>) else Inl ErrInvalidID)"

text \<open>Modelled from the spec: \<^verbatim>\<open>setKeyshareSecret\<close>, the write of the keyshare secret.\<close>

definition setKeyshareSecret ::
  "unencryptedUserSecrets \<Rightarrow> int \<Rightarrow> error + unencryptedUserSecrets" where
  "setKeyshareSecret s secret = Inr (s\<lparr>KeyshareSecret := secret\<rparr>)"

subsection \<open>The core\<close>

text \<open>
  The fields of \<^verbatim>\<open>Core\<close> that \<^verbatim>\<open>operations.go\<close> uses, and the symmetric key of the
  container (\<open>storageKey\<close>). \<open>jwtPrivateKey\<close> is the RSA key pair of the server.
\<close>

record Core =
  storageKey :: nat
  jwtIssuer :: string
  jwtPinExpiry :: int
  jwtPrivateKeyID :: nat
  jwtPrivateKey :: nat
  trustedKeys :: "PublicKeyIdentifier \<rightharpoonup> gabi_PublicKey"
  commitmentData :: "64 word \<rightharpoonup> int"
  authChallenges :: "bytes \<rightharpoonup> bytes"

text \<open>Modelled from the spec: \<^verbatim>\<open>encryptUserSecrets\<close>, the seal under the key of the core.\<close>

definition encryptUserSecrets :: "Core \<Rightarrow> unencryptedUserSecrets \<Rightarrow> error + UserSecrets" where
  "encryptUserSecrets c s = Inr (Sealed (storageKey c) s)"

text \<open>
  Modelled from the spec: \<^verbatim>\<open>decryptUserSecrets\<close>; every failure is the one opaque
  decryption error.
\<close>

definition decryptUserSecrets :: "Core \<Rightarrow> UserSecrets \<Rightarrow> error + unencryptedUserSecrets" where
  "decryptUserSecrets c secrets =
     (case secrets of
        Sealed k s \<Rightarrow> if k = storageKey c then Inr s else Inl ErrDecryption
      | Unsealable _ \<Rightarrow> Inl ErrDecryption)"

text \<open>
  Modelled from the spec: \<^verbatim>\<open>decryptUserSecretsIfPinOK\<close> decrypts, then compares the
  PIN.
\<close>

definition decryptUserSecretsIfPinOK ::
  "Core \<Rightarrow> UserSecrets \<Rightarrow> string \<Rightarrow> error + unencryptedUserSecrets" where
  "decryptUserSecretsIfPinOK c secrets pin =
     (case decryptUserSecrets c secrets of
        Inl e \<Rightarrow> Inl e
      | Inr s \<Rightarrow> (case verifyPin s pin of Some e \<Rightarrow> Inl e | None \<Rightarrow> Inr s))"

subsection \<open>operations.go\<close>

text \<open>
  \<^verbatim>\<open>NewUserSecrets\<close>. \<open>rndSecret\<close> is the result of \<^verbatim>\<open>gabi.NewKeyshareSecret()\<close>,
  \<open>rndID\<close> the 32 bytes read from the random source; \<open>None\<close> is a failed draw.
\<close>

definition NewUserSecrets ::
  "Core \<Rightarrow> string \<Rightarrow> nat option \<Rightarrow> int option \<Rightarrow> bytes option \<Rightarrow> error + UserSecrets" where
  "NewUserSecrets c pin pk rndSecret rndID =
     (case rndSecret of
        None \<Rightarrow> Inl ErrRandom
      | Some secret \<Rightarrow>
          (case rndID of
             None \<Rightarrow> Inl ErrRandom
           | Some tokenID \<Rightarrow>
               (case setPin \<lparr>Pin = [], KeyshareSecret = 0, ID = [], PublicKey = None\<rparr> pin of
                  Inl e \<Rightarrow> Inl e
                | Inr s1 \<Rightarrow>
                    (case setKeyshareSecret s1 secret of
                       Inl e \<Rightarrow> Inl e
                     | Inr s2 \<Rightarrow>
                         (case setID s2 tokenID of
                            Inl e \<Rightarrow> Inl e
                          | Inr s3 \<Rightarrow> encryptUserSecrets c (s3\<lparr>PublicKey := pk\<rparr>))))))"

text \<open>
  \<^verbatim>\<open>authJWT\<close> at clock \<open>now\<close>: an RS256 token signed with the key of the core.
  Signing with a well-formed key does not fail.
\<close>

definition authJWT :: "Core \<Rightarrow> unencryptedUserSecrets \<Rightarrow> int \<Rightarrow> error + jwt_string" where
  "authJWT c s now =
     Inr (Compact
       \<lparr>Header_alg = Some ''RS256'',
        Header_kid = Some (jwtPrivateKeyID c),
        Claims =
          [(''iss'', JString (jwtIssuer c)),
           (''sub'', JString ''auth_tok''),
           (''iat'', JNumber now),
           (''exp'', JNumber (now + jwtPinExpiry c)),
           (''token_id'', JString (EncodeToString (ID s)))],
        Signature = Some (RSAPublicKey (jwtPrivateKey c))\<rparr>)"

text \<open>\<^verbatim>\<open>challenge\<close>: look the stored challenge up and delete it.\<close>

definition challenge :: "Core \<Rightarrow> bytes \<Rightarrow> bytes option \<times> Core" where
  "challenge c stringID =
     (authChallenges c stringID,
      c\<lparr>authChallenges := (authChallenges c)(stringID := None)\<rparr>)"

text \<open>\<^verbatim>\<open>verifyChallengeResponse\<close>; \<open>None\<close> is the nil error.\<close>

definition verifyChallengeResponse ::
  "Core \<Rightarrow> unencryptedUserSecrets \<Rightarrow> signature_bytes \<Rightarrow> string \<Rightarrow> error option \<times> Core" where
  "verifyChallengeResponse c s response pin =
     (case challenge c (ID s) of
        (None, c') \<Rightarrow>
          (if PublicKey s \<noteq> None then (Some ErrChallengeResponseRequired, c') else (None, c'))
      | (Some ch, c') \<Rightarrow>
          (signed_Verify (PublicKey s) \<lparr>Challenge = ch, PIN = pin\<rparr> response, c'))"

text \<open>\<^verbatim>\<open>ValidateAuth\<close>.\<close>

definition ValidateAuth ::
  "Core \<Rightarrow> UserSecrets \<Rightarrow> signature_bytes \<Rightarrow> string \<Rightarrow> int \<Rightarrow> (error + jwt_string) \<times> Core" where
  "ValidateAuth c secrets response pin now =
     (case decryptUserSecretsIfPinOK c secrets pin of
        Inl e \<Rightarrow> (Inl e, c)
      | Inr s \<Rightarrow>
          (case verifyChallengeResponse c s response pin of
             (Some e, c') \<Rightarrow> (Inl e, c')
           | (None, c') \<Rightarrow> (authJWT c' s now, c')))"

text \<open>
  \<^verbatim>\<open>verifyAccess\<close>. The key function refuses every method but RS256. The clock is read
  three times: by the library when \<^verbatim>\<open>jwt.Parse\<close> validates the claims (\<open>now1\<close>), by
  \<^verbatim>\<open>claims.Valid()\<close> (\<open>now2\<close>), and by \<^verbatim>\<open>time.Now()\<close> for the expiry check
  (\<open>now3\<close>). Nothing is assumed about the order of the three readings.
\<close>

definition verifyAccess ::
  "Core \<Rightarrow> UserSecrets \<Rightarrow> jwt_string \<Rightarrow> int \<Rightarrow> int \<Rightarrow> int \<Rightarrow>
   error + unencryptedUserSecrets" where
  "verifyAccess c secrets jwtToken now1 now2 now3 =
     (case jwt_Parse jwtToken
             (\<lambda>m. if m \<noteq> SigningMethodRS256 then Inl ErrInvalidJWT
                  else Inr (RSAPublicKey (jwtPrivateKey c))) now1 of
        Inl _ \<Rightarrow> Inl ErrInvalidJWT
      | Inr token \<Rightarrow>
          if \<not> MapClaims_Valid (Claims token) now2 then Inl ErrInvalidJWT
          else if \<not> VerifyExpiresAt (Claims token) now3 True then Inl ErrExpiredJWT
          else
            (case map_of (Claims token) ''token_id'' of
               None \<Rightarrow> Inl ErrInvalidJWT
             | Some (JString tokenIDB64) \<Rightarrow>
                 (case DecodeString tokenIDB64 of
                    None \<Rightarrow> Inl ErrInvalidJWT
                  | Some tokenID \<Rightarrow>
                      (case decryptUserSecrets c secrets of
                         Inl e \<Rightarrow> Inl e
                       | Inr s \<Rightarrow>
                           if ConstantTimeCompare (ID s) tokenID \<noteq> 1 then Inl ErrInvalidJWT
                           else Inr s))
             | Some _ \<Rightarrow> Inl ErrInvalidJWT))"

text \<open>
  \<^verbatim>\<open>ValidateJWT\<close>, with the three clock readings of \<^verbatim>\<open>verifyAccess\<close>; \<open>None\<close> is
  the nil error.
\<close>

definition ValidateJWT ::
  "Core \<Rightarrow> UserSecrets \<Rightarrow> jwt_string \<Rightarrow> int \<Rightarrow> int \<Rightarrow> int \<Rightarrow> error option" where
  "ValidateJWT c secrets jwt now1 now2 now3 =
     (case verifyAccess c secrets jwt now1 now2 now3 of Inl e \<Rightarrow> Some e | Inr _ \<Rightarrow> None)"






text \<open>The key loop of \<^verbatim>\<open>GenerateCommitments\<close>: the first unknown key identifier ends it.\<close>

fun resolveKeys ::
  "(PublicKeyIdentifier \<rightharpoonup> gabi_PublicKey) \<Rightarrow> PublicKeyIdentifier list \<Rightarrow>
   gabi_PublicKey list \<Rightarrow> error + gabi_PublicKey list" where
  "resolveKeys tk [] keyList = Inr keyList"
| "resolveKeys tk (keyID # rest) keyList =
     (case tk keyID of
        None \<Rightarrow> Inl ErrKeyNotFound
      | Some key \<Rightarrow> resolveKeys tk rest (keyList @ [key]))"

text \<open>
  \<^verbatim>\<open>GenerateCommitments\<close>. \<open>now1\<close>, \<open>now2\<close> and \<open>now3\<close> are the clock readings
  of \<^verbatim>\<open>verifyAccess\<close>, \<open>rndCommit\<close> is the draw of the commitment primitive,
  \<open>rndID\<close> the 64-bit commit-id read from the random source.
\<close>

definition GenerateCommitments ::
  "Core \<Rightarrow> UserSecrets \<Rightarrow> jwt_string \<Rightarrow> PublicKeyIdentifier list \<Rightarrow> int \<Rightarrow> int \<Rightarrow> int \<Rightarrow>
   int option \<Rightarrow> 64 word option \<Rightarrow> (error + (ProofPCommitment list \<times> 64 word)) \<times> Core" where
  "GenerateCommitments c secrets accessToken keyIDs now1 now2 now3 rndCommit rndID =
     (case resolveKeys (trustedKeys c) keyIDs [] of
        Inl e \<Rightarrow> (Inl e, c)
      | Inr keyList \<Rightarrow>
          (case verifyAccess c secrets accessToken now1 now2 now3 of
             Inl e \<Rightarrow> (Inl e, c)
           | Inr s \<Rightarrow>
               (case NewKeyshareCommitments (KeyshareSecret s) keyList rndCommit of
                  Inl e \<Rightarrow> (Inl e, c)
                | Inr (commitSecret, commitments) \<Rightarrow>
                    (case rndID of
                       None \<Rightarrow> (Inl ErrRandom, c)
                     | Some commitID \<Rightarrow>
                         (Inr (commitments, commitID),
                          c\<lparr>commitmentData := (commitmentData c)(commitID \<mapsto> commitSecret)\<rparr>)))))"

text \<open>
  \<^verbatim>\<open>GenerateResponse\<close>. The commit is fetched and deleted in one step; the response is
  an RS256 token carrying the proof. \<open>now1\<close>, \<open>now2\<close> and \<open>now3\<close> are the clock
  readings of \<^verbatim>\<open>verifyAccess\<close>, \<open>now4\<close> the reading for the \<open>iat\<close> claim of the
  response.
\<close>

definition GenerateResponse ::
  "Core \<Rightarrow> UserSecrets \<Rightarrow> jwt_string \<Rightarrow> 64 word \<Rightarrow> int \<Rightarrow> PublicKeyIdentifier \<Rightarrow>
   int \<Rightarrow> int \<Rightarrow> int \<Rightarrow> int \<Rightarrow> (error + jwt_string) \<times> Core" where
  "GenerateResponse c secrets accessToken commitID chal keyID now1 now2 now3 now4 =
     (if BitLen chal > Lh \<or> chal < 0 then (Inl ErrInvalidChallenge, c)
      else
        (case trustedKeys c keyID of
           None \<Rightarrow> (Inl ErrKeyNotFound, c)
         | Some key \<Rightarrow>
             (case verifyAccess c secrets accessToken now1 now2 now3 of
                Inl e \<Rightarrow> (Inl e, c)
              | Inr s \<Rightarrow>
                  (case commitmentData c commitID of
                     None \<Rightarrow>
                       (Inl ErrUnknownCommit,
                        c\<lparr>commitmentData := (commitmentData c)(commitID := None)\<rparr>)
                   | Some commit \<Rightarrow>
                       (Inr (Compact
                          \<lparr>Header_alg = Some ''RS256'',
                           Header_kid = Some (jwtPrivateKeyID c),
                           Claims =
                             [(''ProofP'',
                               JProofP (KeyshareResponse (KeyshareSecret s) commit chal key)),
                              (''iat'', JNumber now4),
                              (''sub'', JString ''ProofP''),
                              (''iss'', JString (jwtIssuer c))],
                           Signature = Some (RSAPublicKey (jwtPrivateKey c))\<rparr>),
                        c\<lparr>commitmentData := (commitmentData c)(commitID := None)\<rparr>)))))"

text \<open>\<^verbatim>\<open>GenerateChallenge\<close>. \<open>rnd\<close> is the 32 bytes read for the challenge.\<close>

definition GenerateChallenge ::
  "Core \<Rightarrow> UserSecrets \<Rightarrow> bytes option \<Rightarrow> (error + bytes) \<times> Core" where
  "GenerateChallenge c secrets rnd =
     (case decryptUserSecrets c secrets of
        Inl e \<Rightarrow> (Inl e, c)
      | Inr s \<Rightarrow>
          if PublicKey s = None then
            (Inl (ErrOther ''can't do challenge-response: no public key associated to account''),
             c)
          else
            (case rnd of
               None \<Rightarrow> (Inl ErrRandom, c)
             | Some ch \<Rightarrow>
                 (Inr ch, c\<lparr>authChallenges := (authChallenges c)(ID s \<mapsto> ch)\<rparr>)))"

text \<open>\<^verbatim>\<open>SetUserPublicKey\<close>; \<open>pk\<close> is a pointer in the source, \<open>None\<close> is nil.\<close>

definition SetUserPublicKey ::
  "Core \<Rightarrow> UserSecrets \<Rightarrow> string \<Rightarrow> nat option \<Rightarrow> int \<Rightarrow> error + (jwt_string \<times> UserSecrets)" where
  "SetUserPublicKey c secrets pin pk now =
     (case decryptUserSecretsIfPinOK c secrets pin of
        Inl e \<Rightarrow> Inl e
      | Inr s \<Rightarrow>
          if PublicKey s \<noteq> None then Inl (ErrOther ''user already has public key'')
          else
            (case encryptUserSecrets c (s\<lparr>PublicKey := pk\<rparr>) of
               Inl e \<Rightarrow> Inl e
             | Inr secrets' \<Rightarrow>
                 (case authJWT c (s\<lparr>PublicKey := pk\<rparr>) now of
                    Inl e \<Rightarrow> Inl e
                  | Inr jwtt \<Rightarrow> Inr (jwtt, secrets'))))"

subsection \<open>Sequences of calls\<close>

text \<open>
  The calls that can change the two stores, with all their inputs. \<^verbatim>\<open>ChangePin\<close>,
  \<^verbatim>\<open>SetUserPublicKey\<close>, \<^verbatim>\<open>ValidateJWT\<close> and \<^verbatim>\<open>NewUserSecrets\<close> only read the core.
  \<open>perform\<close> is the core after a call, \<open>run\<close> the core after a sequence of calls.
\<close>

datatype op =
    OpValidateAuth UserSecrets signature_bytes string int
  | OpGenerateChallenge UserSecrets "bytes option"
  | OpGenerateCommitments UserSecrets jwt_string "PublicKeyIdentifier list" int int int
      "int option" "64 word option"
  | OpGenerateResponse UserSecrets jwt_string "64 word" int PublicKeyIdentifier int int int int

fun perform :: "Core \<Rightarrow> op \<Rightarrow> Core" where
  "perform c (OpValidateAuth secrets response pin now) =
     snd (ValidateAuth c secrets response pin now)"
| "perform c (OpGenerateChallenge secrets rnd) =
     snd (GenerateChallenge c secrets rnd)"
| "perform c (OpGenerateCommitments secrets accessToken keyIDs now1 now2 now3 rndCommit rndID) =
     snd (GenerateCommitments c secrets accessToken keyIDs now1 now2 now3 rndCommit rndID)"
| "perform c (OpGenerateResponse secrets accessToken commitID chal keyID now1 now2 now3 now4) =
     snd (GenerateResponse c secrets accessToken commitID chal keyID now1 now2 now3 now4)"

definition run :: "Core \<Rightarrow> op list \<Rightarrow> Core" where
  "run c ops = foldl perform c ops"

text \<open>
  \<open>draws_commitID k op\<close>: the call is a \<^verbatim>\<open>GenerateCommitments\<close> whose random commit-id
  is \<open>k\<close>. \<open>asks_challenge c i op\<close>: the call is a \<^verbatim>\<open>GenerateChallenge\<close> for secrets
  whose token-id is \<open>i\<close>.
\<close>

fun draws_commitID :: "64 word \<Rightarrow> op \<Rightarrow> bool" where
  "draws_commitID k (OpGenerateCommitments _ _ _ _ _ _ _ rndID) = (rndID = Some k)"
| "draws_commitID k _ = False"

fun asks_challenge :: "Core \<Rightarrow> bytes \<Rightarrow> op \<Rightarrow> bool" where
  "asks_challenge c i (OpGenerateChallenge secrets _) =
     (case decryptUserSecrets c secrets of Inr s \<Rightarrow> ID s = i | Inl _ \<Rightarrow> False)"
| "asks_challenge c i _ = False"

subsection \<open>Example values\<close>

text \<open>
  A core with one trusted key, a legacy user (no client key) and a user with client key
  7, and their blobs.
\<close>

definition exCore :: Core where
  "exCore =
     \<lparr>storageKey = 1, jwtIssuer = ''keyshare_server'', jwtPinExpiry = 900,
      jwtPrivateKeyID = 0, jwtPrivateKey = 11,
      trustedKeys = [(''test.test'', 3) \<mapsto> GabiPublicKey 3],
      commitmentData = Map.empty, authChallenges = Map.empty\<rparr>"

definition exKeyID :: PublicKeyIdentifier where
  "exKeyID = (''test.test'', 3)"

definition exLegacy :: unencryptedUserSecrets where
  "exLegacy = \<lparr>Pin = ''12345'', KeyshareSecret = 42, ID = replicate 32 1, PublicKey = None\<rparr>"

definition exUser :: unencryptedUserSecrets where
  "exUser = \<lparr>Pin = ''12345'', KeyshareSecret = 42, ID = replicate 32 2, PublicKey = Some 7\<rparr>"

definition exLegacyBlob :: UserSecrets where
  "exLegacyBlob = Sealed 1 exLegacy"

definition exUserBlob :: UserSecrets where
  "exUserBlob = Sealed 1 exUser"

text \<open>The access token minted for \<open>exUser\<close> at clock 100; it expires at 1000.\<close>

definition exToken :: jwt_string where
  "exToken =
     Compact
       \<lparr>Header_alg = Some ''RS256'', Header_kid = Some 0,
        Claims =
          [(''iss'', JString ''keyshare_server''), (''sub'', JString ''auth_tok''),
           (''iat'', JNumber 100), (''exp'', JNumber 1000),
           (''token_id'', JString (EncodeToString (replicate 32 2)))],
        Signature = Some (RSAPublicKey 11)\<rparr>"

text \<open>The access token minted for \<open>exLegacy\<close> at clock 100.\<close>

definition exLegacyToken :: jwt_string where
  "exLegacyToken =
     Compact
       \<lparr>Header_alg = Some ''RS256'', Header_kid = Some 0,
        Claims =
          [(''iss'', JString ''keyshare_server''), (''sub'', JString ''auth_tok''),
           (''iat'', JNumber 100), (''exp'', JNumber 1000),
           (''token_id'', JString (EncodeToString (replicate 32 1)))],
        Signature = Some (RSAPublicKey 11)\<rparr>"



text \<open>The core after a challenge has been issued to \<open>exUser\<close>, and a response.\<close>

definition exCoreChallenged :: Core where
  "exCoreChallenged = exCore\<lparr>authChallenges := [replicate 32 2 \<mapsto> replicate 32 3]\<rparr>"

definition exResponse :: signature_bytes where
  "exResponse = SignatureBy 7 \<lparr>Challenge = replicate 32 3, PIN = ''12345''\<rparr>"

text \<open>
  The blob of \<open>exLegacy\<close> after client key 7 has been registered, and the token that
  \<^verbatim>\<open>SetUserPublicKey\<close> mints at clock 500.
\<close>

definition exUpgradedBlob :: UserSecrets where
  "exUpgradedBlob =
     Sealed 1 \<lparr>Pin = ''12345'', KeyshareSecret = 42, ID = replicate 32 1, PublicKey = Some 7\<rparr>"

definition exUpgradeToken :: jwt_string where
  "exUpgradeToken =
     Compact
       \<lparr>Header_alg = Some ''RS256'', Header_kid = Some 0,
        Claims =
          [(''iss'', JString ''keyshare_server''), (''sub'', JString ''auth_tok''),
           (''iat'', JNumber 500), (''exp'', JNumber 1400),
           (''token_id'', JString (EncodeToString (replicate 32 1)))],
        Signature = Some (RSAPublicKey 11)\<rparr>"

text \<open>
  A proof session of \<open>exUser\<close>: commitments with commit-id 5, the response to them, and
  two further \<^verbatim>\<open>GenerateCommitments\<close> calls, one drawing commit-id 5 again and one
  drawing commit-id 6; the two response tokens; and the access token minted at clock 501.
\<close>

definition exCommit1 :: op where
  "exCommit1 = OpGenerateCommitments exUserBlob exToken [exKeyID] 500 501 502 (Some 9) (Some 5)"

definition exRespond :: op where
  "exRespond = OpGenerateResponse exUserBlob exToken 5 12345678 exKeyID 510 511 512 513"

definition exCommit2 :: op where
  "exCommit2 = OpGenerateCommitments exUserBlob exToken [exKeyID] 520 521 522 (Some 8) (Some 5)"

definition exCommitOther :: op where
  "exCommitOther =
     OpGenerateCommitments exUserBlob exToken [exKeyID] 520 521 522 (Some 8) (Some 6)"

definition exProof1 :: jwt_string where
  "exProof1 =
     Compact
       \<lparr>Header_alg = Some ''RS256'', Header_kid = Some 0,
        Claims =
          [(''ProofP'', JProofP (KeyshareResponse 42 9 12345678 (GabiPublicKey 3))),
           (''iat'', JNumber 513), (''sub'', JString ''ProofP''),
           (''iss'', JString ''keyshare_server'')],
        Signature = Some (RSAPublicKey 11)\<rparr>"

definition exProof2 :: jwt_string where
  "exProof2 =
     Compact
       \<lparr>Header_alg = Some ''RS256'', Header_kid = Some 0,
        Claims =
          [(''ProofP'', JProofP (KeyshareResponse 42 8 12345678 (GabiPublicKey 3))),
           (''iat'', JNumber 533), (''sub'', JString ''ProofP''),
           (''iss'', JString ''keyshare_server'')],
        Signature = Some (RSAPublicKey 11)\<rparr>"


section \<open>Properties\<close>

subsection \<open>The base64 round trip\<close>

lemma distinct_encodeStd: "distinct encodeStd"
  unfolding encodeStd_def by simp

lemma length_encodeStd: "length encodeStd = 64"
  unfolding encodeStd_def by simp

lemma indexOf_nth: "distinct xs \<Longrightarrow> n < length xs \<Longrightarrow> indexOf (xs ! n) xs = Some n"
proof (induction xs arbitrary: n)
  case Nil
  then show ?case by simp
next
  case (Cons x xs)
  show ?case
  proof (cases n)
    case 0
    then show ?thesis by simp
  next
    case (Suc m)
    with Cons.prems have "m < length xs" "xs ! m \<noteq> x" "distinct xs" by auto
    with Cons.IH[of m] Suc show ?thesis by simp
  qed
qed

lemma decodeMap_encodeChar: "n < 64 \<Longrightarrow> decodeMap (encodeChar n) = Some n"
  unfolding decodeMap_def encodeChar_def
  by (rule indexOf_nth) (simp_all add: distinct_encodeStd length_encodeStd)

lemma encodeChar_in: "n < 64 \<Longrightarrow> encodeChar n \<in> set encodeStd"
  unfolding encodeChar_def by (simp add: length_encodeStd)

lemma encodeChar_not_special:
  assumes "n < 64"
  shows "encodeChar n \<noteq> CHR ''=''" "encodeChar n \<noteq> CHR 0x0A" "encodeChar n \<noteq> CHR 0x0D"
  using encodeChar_in[OF assms] unfolding encodeStd_def by auto

lemma unat_byte_less: "unat (a :: byte) < 256"
  using unsigned_less[of a, where 'a = nat] by simp

lemma sextet_bounds:
  "unat (a :: byte) div 4 < 64"
  "(unat (a :: byte) mod 4) * 16 + unat (b :: byte) div 16 < 64"
  "(unat (a :: byte) mod 4) * 16 < 64"
  "(unat (b :: byte) mod 16) * 4 + unat (c :: byte) div 64 < 64"
  "(unat (b :: byte) mod 16) * 4 < 64"
  "unat (c :: byte) mod 64 < 64"
  using unat_byte_less[of a] unat_byte_less[of b] unat_byte_less[of c] by auto

lemma rebuild_first:
  "of_nat (unat (a :: byte) div 4 * 4 + ((unat a mod 4) * 16 + unat (b :: byte) div 16) div 16) = a"
proof -
  have "unat b div 16 < 16" using unat_byte_less[of b] by auto
  then have "((unat a mod 4) * 16 + unat b div 16) div 16 = unat a mod 4" by auto
  then have "unat a div 4 * 4 + ((unat a mod 4) * 16 + unat b div 16) div 16 = unat a" by auto
  then show ?thesis by simp
qed

lemma rebuild_first_pad:
  "of_nat (unat (a :: byte) div 4 * 4 + ((unat a mod 4) * 16) div 16) = a"
proof -
  have "unat a div 4 * 4 + ((unat a mod 4) * 16) div 16 = unat a" by auto
  then show ?thesis by simp
qed

lemma rebuild_second:
  "of_nat ((((unat (a :: byte) mod 4) * 16 + unat (b :: byte) div 16) mod 16) * 16
     + ((unat b mod 16) * 4 + unat (c :: byte) div 64) div 4) = b"
proof -
  have c: "unat c div 64 < 4" using unat_byte_less[of c] by auto
  have b: "unat b div 16 < 16" using unat_byte_less[of b] by auto
  have 1: "((unat a mod 4) * 16 + unat b div 16) mod 16 = unat b div 16" using b by auto
  have 2: "((unat b mod 16) * 4 + unat c div 64) div 4 = unat b mod 16" using c by auto
  have "unat b div 16 * 16 + unat b mod 16 = unat b" by auto
  with 1 2 show ?thesis by simp
qed

lemma rebuild_second_pad:
  "of_nat ((((unat (a :: byte) mod 4) * 16 + unat (b :: byte) div 16) mod 16) * 16
     + ((unat b mod 16) * 4) div 4) = b"
proof -
  have b: "unat b div 16 < 16" using unat_byte_less[of b] by auto
  have 1: "((unat a mod 4) * 16 + unat b div 16) mod 16 = unat b div 16" using b by auto
  have "unat b div 16 * 16 + unat b mod 16 = unat b" by auto
  with 1 show ?thesis by simp
qed

lemma rebuild_third:
  "of_nat ((((unat (b :: byte) mod 16) * 4 + unat (c :: byte) div 64) mod 4) * 64 + unat c mod 64) = c"
proof -
  have c: "unat c div 64 < 4" using unat_byte_less[of c] by auto
  have 1: "((unat b mod 16) * 4 + unat c div 64) mod 4 = unat c div 64" using c by auto
  have "unat c div 64 * 64 + unat c mod 64 = unat c" by auto
  with 1 show ?thesis by simp
qed

lemmas quanta_eval =
  EncodeToString.simps decodeQuanta.simps append.simps decodeMap_encodeChar sextet_bounds
  encodeChar_not_special simp_thms if_True if_False option.case prod.case list.simps

lemma decodeQuanta_EncodeToString: "decodeQuanta (EncodeToString xs) = Some xs"
proof (induction xs rule: EncodeToString.induct)
  case 1
  then show ?case by simp
next
  case (2 a)
  then show ?case
    by (simp only: quanta_eval rebuild_first_pad)
next
  case (3 a b)
  then show ?case
    by (simp only: quanta_eval rebuild_first rebuild_second_pad)
next
  case (4 a b c rest)
  then show ?case
    by (simp only: quanta_eval rebuild_first rebuild_second rebuild_third)
qed

lemma filter_EncodeToString:
  "filter (\<lambda>c. c \<noteq> CHR 0x0A \<and> c \<noteq> CHR 0x0D) (EncodeToString xs) = EncodeToString xs"
  by (induction xs rule: EncodeToString.induct)
     (simp_all add: encodeChar_not_special sextet_bounds)

lemma DecodeString_EncodeToString: "DecodeString (EncodeToString xs) = Some xs"
  by (simp add: DecodeString_def filter_EncodeToString decodeQuanta_EncodeToString)

subsection \<open>Bit lengths\<close>

lemma bitLenNat_le_iff: "bitLenNat n \<le> k \<longleftrightarrow> n < 2 ^ k"
proof (induction k arbitrary: n)
  case 0
  show ?case by (subst bitLenNat.simps) simp
next
  case (Suc k)
  show ?case
  proof (cases "n = 0")
    case True
    then show ?thesis by (subst bitLenNat.simps) simp
  next
    case False
    have "bitLenNat n = Suc (bitLenNat (n div 2))"
      using False by (subst bitLenNat.simps) simp
    moreover have "n div 2 < 2 ^ k \<longleftrightarrow> n < 2 ^ Suc k" by auto
    ultimately show ?thesis using Suc.IH[of "n div 2"] by simp
  qed
qed

lemma BitLen_le_iff: "BitLen x \<le> k \<longleftrightarrow> \<bar>x\<bar> < 2 ^ k"
proof -
  have "nat \<bar>x\<bar> < 2 ^ k \<longleftrightarrow> \<bar>x\<bar> < 2 ^ k"
    by (simp add: nat_less_iff)
  then show ?thesis by (simp add: BitLen_def bitLenNat_le_iff)
qed

subsection \<open>Facts about the library functions and the examples\<close>

lemma GetSigningMethod_RS256:
  "GetSigningMethod alg = Some SigningMethodRS256 \<longleftrightarrow> alg = ''RS256''"
  by (simp add: GetSigningMethod_def)

lemma resolveKeys_missing:
  "\<exists>k \<in> set keyIDs. tk k = None \<Longrightarrow> resolveKeys tk keyIDs keyList = Inl ErrKeyNotFound"
  by (induction keyIDs arbitrary: keyList) (auto split: option.splits)

lemma resolveKeys_present:
  "\<forall>k \<in> set keyIDs. tk k \<noteq> None \<Longrightarrow> \<exists>keys. resolveKeys tk keyIDs keyList = Inr keys"
  by (induction keyIDs arbitrary: keyList) (auto split: option.splits)

lemma verifyAccess_errors:
  "verifyAccess c secrets jwtToken now1 now2 now3 = Inl e \<Longrightarrow>
     e = ErrInvalidJWT \<or> e = ErrExpiredJWT \<or> e = ErrDecryption"
  by (auto simp: verifyAccess_def decryptUserSecrets_def
      split: sum.splits if_splits option.splits json.splits UserSecrets.splits)

lemma exCore_fields:
  "storageKey exCore = 1" "jwtIssuer exCore = ''keyshare_server''" "jwtPinExpiry exCore = 900"
  "jwtPrivateKeyID exCore = 0" "jwtPrivateKey exCore = 11"
  "trustedKeys exCore = [(''test.test'', 3) \<mapsto> GabiPublicKey 3]"
  "commitmentData exCore = Map.empty" "authChallenges exCore = Map.empty"
  by (simp_all add: exCore_def)

lemmas jwt_eval =
  jwt_Parse_def ParseWithClaims_def ParseUnverified_def GetSigningMethod_def
  MapClaims_Valid_def VerifyExpiresAt_def VerifyIssuedAt_def VerifyNotBefore_def
  method_Verify_def

lemma exUser_decrypts: "decryptUserSecrets exCore exUserBlob = Inr exUser"
  by (simp add: decryptUserSecrets_def exCore_fields exUserBlob_def)

lemma exLegacy_decrypts: "decryptUserSecrets exCore exLegacyBlob = Inr exLegacy"
  by (simp add: decryptUserSecrets_def exCore_fields exLegacyBlob_def)

lemma exToken_minted: "authJWT exCore exUser 100 = Inr exToken"
  by (simp add: authJWT_def exCore_fields exUser_def exToken_def)




lemma jwt_Parse_Inr:
  "jwt_Parse jwtToken keyFunc now = Inr token \<Longrightarrow>
     jwtToken = Compact token \<and> MapClaims_Valid (Claims token) now"
  by (auto simp: jwt_Parse_def ParseWithClaims_def ParseUnverified_def
      split: jwt_string.splits sum.splits option.splits if_splits)


subsection \<open>Access tokens\<close>





text \<open>
  C3. A token whose header declares another algorithm than RS256 (a method the library
  knows, an unknown name, or no \<open>alg\<close> at all) is refused by \<^verbatim>\<open>verifyAccess\<close> with
  \<open>ErrInvalidJWT\<close>, whatever its claims and its signature.
\<close>

theorem verifyAccess_rejects_other_algorithms:
  assumes "Header_alg token \<noteq> Some ''RS256''"
  shows "verifyAccess c secrets (Compact token) now1 now2 now3 = Inl ErrInvalidJWT"
proof -
  have "\<exists>e. jwt_Parse (Compact token)
          (\<lambda>m. if m \<noteq> SigningMethodRS256 then Inl ErrInvalidJWT
               else Inr (RSAPublicKey (jwtPrivateKey c))) now1 = Inl e"
    using assms
    by (auto simp: jwt_Parse_def ParseWithClaims_def ParseUnverified_def GetSigningMethod_RS256
        split: option.splits)
  then show ?thesis
    by (auto simp: verifyAccess_def)
qed

theorem verifyAccess_rejects_other_algorithms_witness:
  "Header_alg \<lparr>Header_alg = Some ''HS256'', Header_kid = Some 0,
        Claims = [(''exp'', JNumber 1000),
                  (''token_id'', JString (EncodeToString (replicate 32 2)))],
        Signature = Some (RSAPublicKey 11)\<rparr> \<noteq> Some ''RS256''
   \<and> verifyAccess exCore exUserBlob
        (Compact \<lparr>Header_alg = Some ''HS256'', Header_kid = Some 0,
           Claims = [(''exp'', JNumber 1000),
                     (''token_id'', JString (EncodeToString (replicate 32 2)))],
           Signature = Some (RSAPublicKey 11)\<rparr>) 500 501 502 = Inl ErrInvalidJWT"
  using verifyAccess_rejects_other_algorithms
    [of "\<lparr>Header_alg = Some ''HS256'', Header_kid = Some 0,
        Claims = [(''exp'', JNumber 1000),
                  (''token_id'', JString (EncodeToString (replicate 32 2)))],
        Signature = Some (RSAPublicKey 11)\<rparr>" exCore exUserBlob 500 501 502]
  by simp

lemma verifyAccess_same_token_id:
  assumes "verifyAccess c secrets jwtToken now1 now2 now3 = Inr s"
      and "decryptUserSecrets c secrets' = Inr s'"
      and "ID s' = ID s"
  shows "verifyAccess c secrets' jwtToken now1 now2 now3 = Inr s'"
  using assms
  by (auto simp: verifyAccess_def ConstantTimeCompare_def
      split: sum.splits if_splits option.splits json.splits)

text \<open>
  C2, as the code has it. A successful \<^verbatim>\<open>SetUserPublicKey\<close> writes the supplied public
  key and nothing else: the new blob decrypts to the old plaintext with the key set, so
  its token-id is the token-id of the input blob, and every access token that verifies
  against the input blob verifies against the new blob at the same clock readings.
\<close>

theorem SetUserPublicKey_keeps_token_id:
  assumes "SetUserPublicKey c secrets pin pk now = Inr (jwtt, secrets')"
      and "decryptUserSecrets c secrets = Inr s"
  shows "decryptUserSecrets c secrets' = Inr (s\<lparr>PublicKey := pk\<rparr>)
         \<and> ID (s\<lparr>PublicKey := pk\<rparr>) = ID s
         \<and> (verifyAccess c secrets accessToken now1 now2 now3 = Inr s \<longrightarrow>
              verifyAccess c secrets' accessToken now1 now2 now3 = Inr (s\<lparr>PublicKey := pk\<rparr>))"
proof -
  have dec': "decryptUserSecrets c secrets' = Inr (s\<lparr>PublicKey := pk\<rparr>)"
    using assms
    by (auto simp: SetUserPublicKey_def decryptUserSecretsIfPinOK_def encryptUserSecrets_def
        authJWT_def decryptUserSecrets_def split: sum.splits option.splits if_splits)
  show ?thesis
    using dec' verifyAccess_same_token_id[of c secrets accessToken now1 now2 now3 s secrets'
        "s\<lparr>PublicKey := pk\<rparr>"]
    by simp
qed

lemma exLegacyToken_minted: "authJWT exCore exLegacy 100 = Inr exLegacyToken"
  by (simp add: authJWT_def exCore_fields exLegacy_def exLegacyToken_def)

lemma exLegacyToken_verifies:
  "verifyAccess exCore exLegacyBlob exLegacyToken 500 501 502 = Inr exLegacy"
  by (simp add: verifyAccess_def jwt_eval exLegacyToken_def DecodeString_EncodeToString
      exLegacy_decrypts ConstantTimeCompare_def exLegacy_def exCore_fields)

lemma exUpgrade:
  "SetUserPublicKey exCore exLegacyBlob ''12345'' (Some 7) 500
     = Inr (exUpgradeToken, exUpgradedBlob)"
  by (simp add: SetUserPublicKey_def decryptUserSecretsIfPinOK_def exLegacy_decrypts
      verifyPin_def exLegacy_def encryptUserSecrets_def authJWT_def exCore_fields
      exUpgradeToken_def exUpgradedBlob_def)

lemma exUpgraded_decrypts:
  "decryptUserSecrets exCore exUpgradedBlob = Inr (exLegacy\<lparr>PublicKey := Some 7\<rparr>)"
  by (simp add: decryptUserSecrets_def exCore_fields exUpgradedBlob_def exLegacy_def)

text \<open>
  The claim as stated (the new blob has another token-id, and the tokens minted before
  the call no longer verify) fails: for the legacy user of the examples the new blob
  carries the old token-id, and the token minted at clock 100 verifies against it.
\<close>

theorem SetUserPublicKey_rotates_counterexample:

  "PublicKey exLegacy = None
   \<and> decryptUserSecrets exCore exLegacyBlob = Inr exLegacy
   \<and> authJWT exCore exLegacy 100 = Inr exLegacyToken
   \<and> SetUserPublicKey exCore exLegacyBlob ''12345'' (Some 7) 500
       = Inr (exUpgradeToken, exUpgradedBlob)
   \<and> decryptUserSecrets exCore exUpgradedBlob = Inr (exLegacy\<lparr>PublicKey := Some 7\<rparr>)
   \<and> ID (exLegacy\<lparr>PublicKey := Some 7\<rparr>) = ID exLegacy
   \<and> verifyAccess exCore exUpgradedBlob exLegacyToken 500 501 502
       = Inr (exLegacy\<lparr>PublicKey := Some 7\<rparr>)"
proof -
  have v: "verifyAccess exCore exUpgradedBlob exLegacyToken 500 501 502
       = Inr (exLegacy\<lparr>PublicKey := Some 7\<rparr>)"
    by (simp add: verifyAccess_def jwt_eval exLegacyToken_def DecodeString_EncodeToString
        exUpgraded_decrypts ConstantTimeCompare_def exLegacy_def exCore_fields)
  have n: "PublicKey exLegacy = None" by (simp add: exLegacy_def)
  show ?thesis
    using n exUpgrade exLegacy_decrypts exUpgraded_decrypts exLegacyToken_minted v by simp
qed

theorem SetUserPublicKey_keeps_token_id_witness:
  "SetUserPublicKey exCore exLegacyBlob ''12345'' (Some 7) 500
     = Inr (exUpgradeToken, exUpgradedBlob)
   \<and> decryptUserSecrets exCore exLegacyBlob = Inr exLegacy
   \<and> decryptUserSecrets exCore exUpgradedBlob = Inr (exLegacy\<lparr>PublicKey := Some 7\<rparr>)
   \<and> verifyAccess exCore exLegacyBlob exLegacyToken 500 501 502 = Inr exLegacy
   \<and> verifyAccess exCore exUpgradedBlob exLegacyToken 500 501 502
       = Inr (exLegacy\<lparr>PublicKey := Some 7\<rparr>)"
  using SetUserPublicKey_keeps_token_id
          [OF exUpgrade exLegacy_decrypts, of exLegacyToken 500 501 502]
    exUpgrade exLegacy_decrypts exLegacyToken_verifies
  by simp

lemma verifyAccess_expired:
  assumes "map_of (Claims token) ''exp'' = Some (JNumber e)" and "e \<noteq> 0"
      and "e < now1 \<or> e < now2"
  shows "verifyAccess c secrets (Compact token) now1 now2 now3 = Inl ErrInvalidJWT"
proof (cases "jwt_Parse (Compact token)
          (\<lambda>m. if m \<noteq> SigningMethodRS256 then Inl ErrInvalidJWT
               else Inr (RSAPublicKey (jwtPrivateKey c))) now1")
  case (Inl e')
  then show ?thesis by (simp add: verifyAccess_def)
next
  case (Inr token')
  then have eq: "token' = token" and valid: "MapClaims_Valid (Claims token) now1"
    using jwt_Parse_Inr[OF Inr] by auto
  from valid assms(1,2) have "now1 < e"
    by (simp add: MapClaims_Valid_def VerifyExpiresAt_def)
  with assms(3) have "e < now2" by simp
  then have "\<not> MapClaims_Valid (Claims token) now2"
    using assms(1,2) by (simp add: MapClaims_Valid_def VerifyExpiresAt_def)
  then show ?thesis using Inr eq by (simp add: verifyAccess_def)
qed

lemma verifyAccess_ErrExpiredJWT:
  assumes "verifyAccess c secrets jwtToken now1 now2 now3 = Inl ErrExpiredJWT"
  shows "\<exists>token. jwtToken = Compact token
           \<and> MapClaims_Valid (Claims token) now1 \<and> MapClaims_Valid (Claims token) now2
           \<and> \<not> VerifyExpiresAt (Claims token) now3 True"
proof (cases "jwt_Parse jwtToken
          (\<lambda>m. if m \<noteq> SigningMethodRS256 then Inl ErrInvalidJWT
               else Inr (RSAPublicKey (jwtPrivateKey c))) now1")
  case (Inl e)
  with assms show ?thesis by (simp add: verifyAccess_def)
next
  case (Inr token)
  then have tok: "jwtToken = Compact token" and valid: "MapClaims_Valid (Claims token) now1"
    using jwt_Parse_Inr[OF Inr] by auto
  have "MapClaims_Valid (Claims token) now2 \<and> \<not> VerifyExpiresAt (Claims token) now3 True"
    using assms Inr
    by (auto simp: verifyAccess_def decryptUserSecrets_def
        split: option.splits json.splits sum.splits if_splits UserSecrets.splits)
  with tok valid show ?thesis by simp
qed

text \<open>
  C4. The code does not do what the claim says. The token of the examples is minted by
  \<^verbatim>\<open>authJWT\<close> at clock 100 with expiry 1000, is signed with RS256 by the key of the core,
  carries the token-id of the blob and verifies at clocks 500, 501, 502. At clocks 2000,
  2001, 2002 its expiry lies in the past, and \<^verbatim>\<open>verifyAccess\<close> fails with
  \<open>ErrInvalidJWT\<close>, not with \<open>ErrExpiredJWT\<close>: \<^verbatim>\<open>jwt.Parse\<close> has already refused the
  expired claims (line 165), before the expiry check of line 173 is reached.
\<close>

theorem verifyAccess_expired_token_is_invalid:
  "authJWT exCore exUser 100 = Inr exToken
   \<and> verifyAccess exCore exUserBlob exToken 500 501 502 = Inr exUser
   \<and> verifyAccess exCore exUserBlob exToken 2000 2001 2002 = Inl ErrInvalidJWT
   \<and> ValidateJWT exCore exUserBlob exToken 2000 2001 2002 = Some ErrInvalidJWT"
proof -
  have before: "verifyAccess exCore exUserBlob exToken 500 501 502 = Inr exUser"
    by (simp add: verifyAccess_def jwt_eval exToken_def DecodeString_EncodeToString
        exUser_decrypts ConstantTimeCompare_def exUser_def exCore_fields)
  have after: "verifyAccess exCore exUserBlob exToken 2000 2001 2002 = Inl ErrInvalidJWT"
    unfolding exToken_def by (rule verifyAccess_expired[where e = 1000]) simp_all
  show ?thesis using exToken_minted before after by (simp add: ValidateJWT_def)
qed

subsection \<open>Commitments and responses\<close>

text \<open>
  C8, as the code has it. \<^verbatim>\<open>GenerateCommitments\<close> resolves the key identifiers
  before it verifies access: when some key identifier is not in the registry the result
  is \<open>ErrKeyNotFound\<close>, whatever the access token; when all are known and access
  verification fails, the result is the error of the access verification. The core is
  unchanged in both cases.
\<close>

theorem GenerateCommitments_checks_keys_first:
  "((\<exists>k \<in> set keyIDs. trustedKeys c k = None) \<longrightarrow>
      GenerateCommitments c secrets accessToken keyIDs now1 now2 now3 rndCommit rndID
        = (Inl ErrKeyNotFound, c))
   \<and> ((\<forall>k \<in> set keyIDs. trustedKeys c k \<noteq> None)
        \<and> verifyAccess c secrets accessToken now1 now2 now3 = Inl e \<longrightarrow>
      GenerateCommitments c secrets accessToken keyIDs now1 now2 now3 rndCommit rndID = (Inl e, c))"
proof (intro conjI impI)
  assume "\<exists>k \<in> set keyIDs. trustedKeys c k = None"
  then have "resolveKeys (trustedKeys c) keyIDs [] = Inl ErrKeyNotFound"
    by (rule resolveKeys_missing)
  then show "GenerateCommitments c secrets accessToken keyIDs now1 now2 now3 rndCommit rndID
        = (Inl ErrKeyNotFound, c)"
    by (simp add: GenerateCommitments_def)
next
  assume a: "(\<forall>k \<in> set keyIDs. trustedKeys c k \<noteq> None)
        \<and> verifyAccess c secrets accessToken now1 now2 now3 = Inl e"
  then obtain keys where "resolveKeys (trustedKeys c) keyIDs [] = Inr keys"
    using resolveKeys_present[of keyIDs "trustedKeys c" "[]"] by blast
  with a show "GenerateCommitments c secrets accessToken keyIDs now1 now2 now3 rndCommit rndID = (Inl e, c)"
    by (simp add: GenerateCommitments_def)
qed

text \<open>
  The claim as stated (an invalid access token gives the access error even when a key
  identifier is unknown) fails: with the malformed token of the server tests and an
  unknown key identifier the result is \<open>ErrKeyNotFound\<close>.
\<close>

theorem GenerateCommitments_access_first_counterexample:
  "verifyAccess exCore exUserBlob (Malformed ''fakeauthorization'') 500 501 502 = Inl ErrInvalidJWT
   \<and> trustedKeys exCore (''test.test'', 4) = None
   \<and> fst (GenerateCommitments exCore exUserBlob (Malformed ''fakeauthorization'')
            [(''test.test'', 4)] 500 501 502 (Some 9) (Some 5)) = Inl ErrKeyNotFound"
  by (simp add: verifyAccess_def jwt_Parse_def ParseWithClaims_def ParseUnverified_def
      GenerateCommitments_def exCore_def)

theorem GenerateCommitments_checks_keys_first_witness:
  "trustedKeys exCore (''test.test'', 4) = None
   \<and> GenerateCommitments exCore exUserBlob exToken [(''test.test'', 4)] 500 501 502 (Some 9) (Some 5)
       = (Inl ErrKeyNotFound, exCore)
   \<and> trustedKeys exCore exKeyID \<noteq> None
   \<and> verifyAccess exCore exUserBlob (Malformed ''fakeauthorization'') 500 501 502 = Inl ErrInvalidJWT
   \<and> GenerateCommitments exCore exUserBlob (Malformed ''fakeauthorization'') [exKeyID] 500
       501 502 (Some 9) (Some 5) = (Inl ErrInvalidJWT, exCore)"
proof -
  have miss: "trustedKeys exCore (''test.test'', 4) = None"
    by (simp add: exCore_def)
  have there: "trustedKeys exCore exKeyID \<noteq> None"
    by (simp add: exCore_def exKeyID_def)
  have bad: "verifyAccess exCore exUserBlob (Malformed ''fakeauthorization'') 500 501 502
       = Inl ErrInvalidJWT"
    by (simp add: verifyAccess_def jwt_Parse_def ParseWithClaims_def ParseUnverified_def)
  show ?thesis
    using GenerateCommitments_checks_keys_first
            [where keyIDs = "[(''test.test'', 4)]" and c = exCore and secrets = exUserBlob
               and accessToken = exToken and ?now1.0 = 500 and ?now2.0 = 501 and ?now3.0 = 502
               and rndCommit = "Some 9"
               and rndID = "Some 5"]
          GenerateCommitments_checks_keys_first
            [where keyIDs = "[exKeyID]" and c = exCore and secrets = exUserBlob
               and accessToken = "Malformed ''fakeauthorization''" and ?now1.0 = 500
               and ?now2.0 = 501 and ?now3.0 = 502
               and e = ErrInvalidJWT and rndCommit = "Some 9" and rndID = "Some 5"]
          miss there bad
    by simp
qed

text \<open>
  C9. \<^verbatim>\<open>GenerateResponse\<close> checks the challenge first: a negative challenge, or one
  longer than \<open>Lh\<close> bits, gives \<open>ErrInvalidChallenge\<close> for every core, blob, token,
  commit-id and key identifier, and leaves the core (so the stored commit) unchanged; a
  challenge within the bounds never gives \<open>ErrInvalidChallenge\<close>.
\<close>

theorem GenerateResponse_challenge_bounds:
  "(chal < 0 \<or> BitLen chal > Lh \<longrightarrow>
      GenerateResponse c secrets accessToken commitID chal keyID now1 now2 now3 now4
        = (Inl ErrInvalidChallenge, c))
   \<and> (0 \<le> chal \<and> BitLen chal \<le> Lh \<longrightarrow>
      fst (GenerateResponse c secrets accessToken commitID chal keyID now1 now2 now3 now4)
        \<noteq> Inl ErrInvalidChallenge)"
proof (intro conjI impI)
  assume "chal < 0 \<or> BitLen chal > Lh"
  then show "GenerateResponse c secrets accessToken commitID chal keyID now1 now2 now3 now4
        = (Inl ErrInvalidChallenge, c)"
    by (auto simp: GenerateResponse_def)
next
  assume ok: "0 \<le> chal \<and> BitLen chal \<le> Lh"
  show "fst (GenerateResponse c secrets accessToken commitID chal keyID now1 now2 now3 now4)
        \<noteq> Inl ErrInvalidChallenge"
  proof (cases "verifyAccess c secrets accessToken now1 now2 now3")
    case (Inl e)
    with verifyAccess_errors[OF Inl] ok show ?thesis
      by (auto simp: GenerateResponse_def split: option.splits)
  next
    case (Inr s)
    with ok show ?thesis
      by (auto simp: GenerateResponse_def split: option.splits)
  qed
qed


theorem GenerateResponse_challenge_bounds_witness:
  "((-1::int) < 0 \<or> BitLen (-1) > Lh)
   \<and> GenerateResponse exCore exUserBlob exToken 5 (-1) exKeyID 500 501 502 503
       = (Inl ErrInvalidChallenge, exCore)
   \<and> ((2::int) ^ 256 < 0 \<or> BitLen (2 ^ 256) > Lh)
   \<and> GenerateResponse exCore exUserBlob exToken 5 (2 ^ 256) exKeyID 500 501 502 503
       = (Inl ErrInvalidChallenge, exCore)
   \<and> ((0::int) \<le> 12345678 \<and> BitLen 12345678 \<le> Lh)
   \<and> fst (GenerateResponse exCore exUserBlob exToken 5 12345678 exKeyID 500 501 502 503)
       \<noteq> Inl ErrInvalidChallenge"
proof -
  have big: "BitLen (2 ^ 256) > Lh"
    by (simp add: BitLen_le_iff Lh_def not_le[symmetric])
  have small: "BitLen 12345678 \<le> Lh"
    by (simp add: BitLen_le_iff Lh_def)
  show ?thesis
    using GenerateResponse_challenge_bounds
            [of "-1" exCore exUserBlob exToken 5 exKeyID 500 501 502 503]
          GenerateResponse_challenge_bounds
            [of "2 ^ 256" exCore exUserBlob exToken 5 exKeyID 500 501 502 503]
          GenerateResponse_challenge_bounds
            [of 12345678 exCore exUserBlob exToken 5 exKeyID 500 501 502 503]
          big small
    by simp
qed

subsection \<open>PIN verification and challenges\<close>

text \<open>
  C10. A failed PIN check does not consume the stored challenge. When the blob decrypts
  to \<open>s\<close>, a challenge is stored for the token-id of \<open>s\<close> and the PIN comparison
  fails with \<open>e\<close>, \<^verbatim>\<open>ValidateAuth\<close> returns \<open>e\<close> and the core unchanged: the
  challenge is still stored for the next attempt.
\<close>

theorem ValidateAuth_wrong_pin_keeps_challenge:
  assumes "decryptUserSecrets c secrets = Inr s"
      and "authChallenges c (ID s) = Some ch"
      and "verifyPin s pin = Some e"
  shows "ValidateAuth c secrets response pin now = (Inl e, c)
         \<and> authChallenges (snd (ValidateAuth c secrets response pin now)) (ID s) = Some ch"
  using assms by (simp add: ValidateAuth_def decryptUserSecretsIfPinOK_def)

theorem ValidateAuth_wrong_pin_keeps_challenge_witness:
  "decryptUserSecrets exCoreChallenged exUserBlob = Inr exUser
   \<and> authChallenges exCoreChallenged (ID exUser) = Some (replicate 32 3)
   \<and> verifyPin exUser ''00000'' = Some ErrInvalidPin
   \<and> ValidateAuth exCoreChallenged exUserBlob exResponse ''00000'' 500
       = (Inl ErrInvalidPin, exCoreChallenged)
   \<and> authChallenges (snd (ValidateAuth exCoreChallenged exUserBlob exResponse ''00000'' 500))
        (ID exUser) = Some (replicate 32 3)"
proof -
  have d: "decryptUserSecrets exCoreChallenged exUserBlob = Inr exUser"
    by (simp add: decryptUserSecrets_def exCoreChallenged_def exCore_def exUserBlob_def)
  have a: "authChallenges exCoreChallenged (ID exUser) = Some (replicate 32 3)"
    by (simp add: exCoreChallenged_def exUser_def)
  have p: "verifyPin exUser ''00000'' = Some ErrInvalidPin"
    by (simp add: verifyPin_def exUser_def)
  show ?thesis
    using ValidateAuth_wrong_pin_keeps_challenge [OF d a p, of exResponse 500] d a p
    by simp
qed

text \<open>
  C6, as the code has it. When the blob decrypts to secrets with a client public key and
  no challenge is stored for their token-id, \<^verbatim>\<open>ValidateAuth\<close> never succeeds: with a
  correct PIN it fails with \<open>ErrChallengeResponseRequired\<close>, with an incorrect PIN it
  fails with the error of the PIN check, which comes first.
\<close>

theorem ValidateAuth_requires_challenge_response:
  assumes "decryptUserSecrets c secrets = Inr s"
      and "PublicKey s \<noteq> None"
      and "authChallenges c (ID s) = None"
  shows "(verifyPin s pin = None \<longrightarrow>
            fst (ValidateAuth c secrets response pin now) = Inl ErrChallengeResponseRequired)
         \<and> (verifyPin s pin = Some e \<longrightarrow>
            fst (ValidateAuth c secrets response pin now) = Inl e)"
  using assms
  by (auto simp: ValidateAuth_def decryptUserSecretsIfPinOK_def verifyChallengeResponse_def
      challenge_def split: option.splits)

text \<open>
  The claim as stated (the failure is \<open>ErrChallengeResponseRequired\<close>, whatever the
  PIN) fails for a wrong PIN: the result is \<open>ErrInvalidPin\<close>.
\<close>

theorem ValidateAuth_wrong_pin_error_counterexample:

  "decryptUserSecrets exCore exUserBlob = Inr exUser
   \<and> PublicKey exUser = Some 7
   \<and> authChallenges exCore (ID exUser) = None
   \<and> fst (ValidateAuth exCore exUserBlob exResponse ''00000'' 500) = Inl ErrInvalidPin"
  by (simp add: exUser_decrypts ValidateAuth_def decryptUserSecretsIfPinOK_def verifyPin_def
      exUser_def exCore_fields)

theorem ValidateAuth_requires_challenge_response_witness:
  "decryptUserSecrets exCore exUserBlob = Inr exUser
   \<and> PublicKey exUser \<noteq> None
   \<and> authChallenges exCore (ID exUser) = None
   \<and> verifyPin exUser ''12345'' = None
   \<and> fst (ValidateAuth exCore exUserBlob exResponse ''12345'' 500)
       = Inl ErrChallengeResponseRequired
   \<and> verifyPin exUser ''00000'' = Some ErrInvalidPin
   \<and> fst (ValidateAuth exCore exUserBlob exResponse ''00000'' 500) = Inl ErrInvalidPin"
proof -
  have k: "PublicKey exUser \<noteq> None" by (simp add: exUser_def)
  have a: "authChallenges exCore (ID exUser) = None" by (simp add: exCore_fields)
  have p: "verifyPin exUser ''12345'' = None" by (simp add: verifyPin_def exUser_def)
  have q: "verifyPin exUser ''00000'' = Some ErrInvalidPin"
    by (simp add: verifyPin_def exUser_def)
  show ?thesis
    using ValidateAuth_requires_challenge_response
            [OF exUser_decrypts k a, of "''12345''" exResponse 500 ErrInvalidPin]
          ValidateAuth_requires_challenge_response
            [OF exUser_decrypts k a, of "''00000''" exResponse 500 ErrInvalidPin]
          exUser_decrypts k a p q
    by simp
qed

subsection \<open>Sequences of calls: what the two stores keep\<close>

lemma ValidateAuth_frame:
  "storageKey (snd (ValidateAuth c secrets response pin now)) = storageKey c
   \<and> jwtPrivateKey (snd (ValidateAuth c secrets response pin now)) = jwtPrivateKey c
   \<and> trustedKeys (snd (ValidateAuth c secrets response pin now)) = trustedKeys c
   \<and> commitmentData (snd (ValidateAuth c secrets response pin now)) = commitmentData c
   \<and> (authChallenges c i = None \<longrightarrow>
        authChallenges (snd (ValidateAuth c secrets response pin now)) i = None)"
  by (simp add: ValidateAuth_def verifyChallengeResponse_def challenge_def
      split: sum.splits option.splits)

lemma GenerateChallenge_frame:
  "storageKey (snd (GenerateChallenge c secrets rnd)) = storageKey c
   \<and> jwtPrivateKey (snd (GenerateChallenge c secrets rnd)) = jwtPrivateKey c
   \<and> trustedKeys (snd (GenerateChallenge c secrets rnd)) = trustedKeys c
   \<and> commitmentData (snd (GenerateChallenge c secrets rnd)) = commitmentData c
   \<and> (authChallenges c i = None \<and> \<not> asks_challenge c i (OpGenerateChallenge secrets rnd) \<longrightarrow>
        authChallenges (snd (GenerateChallenge c secrets rnd)) i = None)"
  by (simp add: GenerateChallenge_def split: sum.splits option.splits)

lemma GenerateCommitments_frame:
  "storageKey (snd (GenerateCommitments c secrets accessToken keyIDs now1 now2 now3 rndCommit
       rndID)) = storageKey c
   \<and> jwtPrivateKey (snd (GenerateCommitments c secrets accessToken keyIDs now1 now2 now3
       rndCommit rndID)) = jwtPrivateKey c
   \<and> trustedKeys (snd (GenerateCommitments c secrets accessToken keyIDs now1 now2 now3
       rndCommit rndID)) = trustedKeys c
   \<and> authChallenges (snd (GenerateCommitments c secrets accessToken keyIDs now1 now2 now3
       rndCommit rndID)) = authChallenges c
   \<and> (commitmentData c k = None \<and> rndID \<noteq> Some k \<longrightarrow>
        commitmentData (snd (GenerateCommitments c secrets accessToken keyIDs now1 now2 now3
          rndCommit rndID)) k = None)"
  by (simp add: GenerateCommitments_def split: sum.splits option.splits prod.splits)

lemma GenerateResponse_frame:
  "storageKey (snd (GenerateResponse c secrets accessToken commitID chal keyID now1 now2 now3
       now4)) = storageKey c
   \<and> jwtPrivateKey (snd (GenerateResponse c secrets accessToken commitID chal keyID now1 now2
       now3 now4)) = jwtPrivateKey c
   \<and> trustedKeys (snd (GenerateResponse c secrets accessToken commitID chal keyID now1 now2
       now3 now4)) = trustedKeys c
   \<and> authChallenges (snd (GenerateResponse c secrets accessToken commitID chal keyID now1 now2
       now3 now4)) = authChallenges c
   \<and> (commitmentData c k = None \<longrightarrow>
        commitmentData (snd (GenerateResponse c secrets accessToken commitID chal keyID now1
          now2 now3 now4)) k = None)"
  by (simp add: GenerateResponse_def split: sum.splits option.splits)



lemma perform_config:
  "storageKey (perform c op) = storageKey c
   \<and> jwtPrivateKey (perform c op) = jwtPrivateKey c
   \<and> trustedKeys (perform c op) = trustedKeys c"
  by (cases op)
     (simp_all add: ValidateAuth_frame GenerateChallenge_frame GenerateCommitments_frame
        GenerateResponse_frame)

lemma run_config:
  "storageKey (run c ops) = storageKey c
   \<and> jwtPrivateKey (run c ops) = jwtPrivateKey c
   \<and> trustedKeys (run c ops) = trustedKeys c"
  unfolding run_def
  by (induction ops arbitrary: c) (simp_all add: perform_config)

lemma decryptUserSecrets_config:
  "storageKey c' = storageKey c \<Longrightarrow> decryptUserSecrets c' secrets = decryptUserSecrets c secrets"
  by (cases secrets) (simp_all add: decryptUserSecrets_def)

lemma verifyAccess_config:
  assumes "storageKey c' = storageKey c" and "jwtPrivateKey c' = jwtPrivateKey c"
  shows "verifyAccess c' secrets jwtToken now1 now2 now3
           = verifyAccess c secrets jwtToken now1 now2 now3"
  unfolding verifyAccess_def decryptUserSecrets_config[OF assms(1)] assms(2) ..

lemma perform_commitmentData:
  assumes "commitmentData c k = None" and "\<not> draws_commitID k op"
  shows "commitmentData (perform c op) k = None"
  using assms
  by (cases op)
     (simp_all add: ValidateAuth_frame GenerateChallenge_frame GenerateCommitments_frame
        GenerateResponse_frame)

lemma run_commitmentData:
  "commitmentData c k = None \<Longrightarrow> \<forall>op \<in> set ops. \<not> draws_commitID k op \<Longrightarrow>
     commitmentData (run c ops) k = None"
  unfolding run_def
  by (induction ops arbitrary: c) (simp_all add: perform_commitmentData)




lemma run_Nil: "run c [] = c"
  by (simp add: run_def)

lemma run_snoc: "run c (ops @ [op]) = perform (run c ops) op"
  by (simp add: run_def)

lemma run_run: "run (run c xs) ys = run c (xs @ ys)"
  by (simp add: run_def)

lemma verifyAccess_run:
  "verifyAccess (run c ops) secrets jwtToken now1 now2 now3
     = verifyAccess c secrets jwtToken now1 now2 now3"
  by (rule verifyAccess_config) (simp_all add: run_config)

lemma GenerateResponse_Inr:
  assumes "GenerateResponse c secrets accessToken commitID chal keyID now1 now2 now3 now4
             = (Inr response, c1)"
  shows "c1 = c\<lparr>commitmentData := (commitmentData c)(commitID := None)\<rparr>"
  using assms
  by (auto simp: GenerateResponse_def split: if_splits option.splits sum.splits)

text \<open>
  C5, as the code has it. After a \<^verbatim>\<open>GenerateResponse\<close> call has answered a commit-id
  (and so consumed it), let any sequence of calls follow in which no
  \<^verbatim>\<open>GenerateCommitments\<close> draws that commit-id again. Then the commit-id is not stored,
  and every \<^verbatim>\<open>GenerateResponse\<close> call with that commit-id, a challenge within the
  bounds, a trusted key and a valid access token fails with \<open>ErrUnknownCommit\<close>.
\<close>

theorem GenerateResponse_consumes_commit_once:
  assumes first: "GenerateResponse c secrets accessToken commitID chal keyID now1 now2 now3 now4
                    = (Inr response, c1)"
      and quiet: "\<forall>op \<in> set ops. \<not> draws_commitID commitID op"
      and bounds: "0 \<le> chal'" "BitLen chal' \<le> Lh"
      and key: "trustedKeys c keyID' = Some key'"
      and access: "verifyAccess c secrets' accessToken' t1 t2 t3 = Inr s'"
  shows "commitmentData (run c1 ops) commitID = None
         \<and> fst (GenerateResponse (run c1 ops) secrets' accessToken' commitID chal' keyID'
                  t1 t2 t3 t4) = Inl ErrUnknownCommit"
proof -
  have c1: "c1 = c\<lparr>commitmentData := (commitmentData c)(commitID := None)\<rparr>"
    using GenerateResponse_Inr[OF first] .
  then have gone: "commitmentData (run c1 ops) commitID = None"
    using run_commitmentData[of c1 commitID ops] quiet by simp
  have key': "trustedKeys (run c1 ops) keyID' = Some key'"
    using key c1 by (simp add: run_config)
  have "verifyAccess (run c1 ops) secrets' accessToken' t1 t2 t3
          = verifyAccess c secrets' accessToken' t1 t2 t3"
    by (rule verifyAccess_config) (simp_all add: run_config c1)
  then have access': "verifyAccess (run c1 ops) secrets' accessToken' t1 t2 t3 = Inr s'"
    using access by simp
  have "\<not> (BitLen chal' > Lh \<or> chal' < 0)" using bounds by auto
  then have "fst (GenerateResponse (run c1 ops) secrets' accessToken' commitID chal' keyID'
               t1 t2 t3 t4) = Inl ErrUnknownCommit"
    using key' access' gone by (simp add: GenerateResponse_def)
  with gone show ?thesis by simp
qed

lemma exToken_verifies:
  "now1 < 1000 \<Longrightarrow> now2 < 1000 \<Longrightarrow> now3 < 1000 \<Longrightarrow>
   100 \<le> now1 \<Longrightarrow> 100 \<le> now2 \<Longrightarrow>
     verifyAccess exCore exUserBlob exToken now1 now2 now3 = Inr exUser"
  by (simp add: verifyAccess_def jwt_eval exToken_def DecodeString_EncodeToString
      exUser_decrypts ConstantTimeCompare_def exUser_def exCore_fields)

lemma exChallenge_in_bounds: "\<not> (BitLen 12345678 > Lh \<or> (12345678::int) < 0)"
  by (simp add: BitLen_le_iff Lh_def not_less)

lemma GenerateCommitments_exUser:
  assumes "verifyAccess c exUserBlob exToken now1 now2 now3 = Inr exUser"
      and "trustedKeys c exKeyID = Some (GabiPublicKey 3)"
  shows "GenerateCommitments c exUserBlob exToken [exKeyID] now1 now2 now3 (Some r) (Some k)
           = (Inr ([ProofPCommitment (GabiPublicKey 3) 42 r], k),
              c\<lparr>commitmentData := (commitmentData c)(k \<mapsto> r)\<rparr>)"
  using assms
  by (simp add: GenerateCommitments_def NewKeyshareCommitments_def exUser_def)

lemma exKey_trusted: "trustedKeys exCore exKeyID = Some (GabiPublicKey 3)"
  by (simp add: exCore_fields exKeyID_def)

lemma exCommitted:
  "run exCore [exCommit1] = exCore\<lparr>commitmentData := (commitmentData exCore)(5 \<mapsto> 9)\<rparr>"
  by (simp add: run_def exCommit1_def GenerateCommitments_exUser exToken_verifies
      exKey_trusted)

lemma GenerateResponse_success:
  assumes "\<not> (BitLen chal > Lh \<or> chal < 0)"
      and "trustedKeys c keyID = Some key"
      and "verifyAccess c secrets accessToken now1 now2 now3 = Inr s"
      and "commitmentData c commitID = Some commit"
  shows "GenerateResponse c secrets accessToken commitID chal keyID now1 now2 now3 now4
           = (Inr (Compact
                \<lparr>Header_alg = Some ''RS256'',
                 Header_kid = Some (jwtPrivateKeyID c),
                 Claims =
                   [(''ProofP'', JProofP (KeyshareResponse (KeyshareSecret s) commit chal key)),
                    (''iat'', JNumber now4),
                    (''sub'', JString ''ProofP''),
                    (''iss'', JString (jwtIssuer c))],
                 Signature = Some (RSAPublicKey (jwtPrivateKey c))\<rparr>),
              c\<lparr>commitmentData := (commitmentData c)(commitID := None)\<rparr>)"
  using assms by (simp add: GenerateResponse_def)

lemma exToken_verifies_commitmentData:
  "now1 < 1000 \<Longrightarrow> now2 < 1000 \<Longrightarrow> now3 < 1000 \<Longrightarrow>
   100 \<le> now1 \<Longrightarrow> 100 \<le> now2 \<Longrightarrow>
     verifyAccess (exCore\<lparr>commitmentData := X\<rparr>) exUserBlob exToken now1 now2 now3
       = Inr exUser"
  using verifyAccess_config[of "exCore\<lparr>commitmentData := X\<rparr>" exCore exUserBlob exToken
      now1 now2 now3]
  by (simp add: exToken_verifies)

lemma exFirstResponse:
  "GenerateResponse (run exCore [exCommit1]) exUserBlob exToken 5 12345678 exKeyID
      510 511 512 513
     = (Inr exProof1, exCore\<lparr>commitmentData := (commitmentData exCore)(5 := None)\<rparr>)"
proof -
  have k: "trustedKeys (run exCore [exCommit1]) exKeyID = Some (GabiPublicKey 3)"
    by (simp add: exCommitted exKey_trusted)
  have v: "verifyAccess (run exCore [exCommit1]) exUserBlob exToken 510 511 512 = Inr exUser"
    by (simp add: exCommitted exToken_verifies_commitmentData)
  have d: "commitmentData (run exCore [exCommit1]) 5 = Some 9"
    by (simp add: exCommitted)
  show ?thesis
    using GenerateResponse_success[OF exChallenge_in_bounds k v d, of 513]
    by (simp add: exCommitted exProof1_def exUser_def exCore_fields)
qed

lemma exResponded:
  "run exCore [exCommit1, exRespond]
     = exCore\<lparr>commitmentData := (commitmentData exCore)(5 := None)\<rparr>"
  using exFirstResponse run_snoc[of exCore "[exCommit1]" exRespond]
  by (simp add: exRespond_def)

lemma exRecommitted:
  "run exCore [exCommit1, exRespond, exCommit2]
     = exCore\<lparr>commitmentData := (commitmentData exCore)(5 \<mapsto> 8)\<rparr>"
  using run_snoc[of exCore "[exCommit1, exRespond]" exCommit2]
  by (simp add: exResponded exCommit2_def GenerateCommitments_exUser
      exToken_verifies_commitmentData exKey_trusted)

text \<open>
  The claim as stated (no commit-id is ever answered twice) fails when the random source
  repeats a commit-id: commit-id 5 is returned, answered, returned again by a second
  \<^verbatim>\<open>GenerateCommitments\<close>, and answered again.
\<close>

theorem GenerateResponse_collision_counterexample:
  "fst (GenerateCommitments exCore exUserBlob exToken [exKeyID] 500 501 502 (Some 9) (Some 5))
     = Inr ([ProofPCommitment (GabiPublicKey 3) 42 9], 5)
   \<and> fst (GenerateResponse (run exCore [exCommit1]) exUserBlob exToken 5 12345678 exKeyID
            510 511 512 513) = Inr exProof1
   \<and> fst (GenerateCommitments (run exCore [exCommit1, exRespond]) exUserBlob exToken [exKeyID]
            520 521 522 (Some 8) (Some 5))
       = Inr ([ProofPCommitment (GabiPublicKey 3) 42 8], 5)
   \<and> fst (GenerateResponse (run exCore [exCommit1, exRespond, exCommit2]) exUserBlob exToken
            5 12345678 exKeyID 530 531 532 533) = Inr exProof2"
proof -
  have one: "fst (GenerateCommitments exCore exUserBlob exToken [exKeyID] 500 501 502
                (Some 9) (Some 5)) = Inr ([ProofPCommitment (GabiPublicKey 3) 42 9], 5)"
    by (simp add: GenerateCommitments_exUser exToken_verifies exKey_trusted)
  have three: "fst (GenerateCommitments (run exCore [exCommit1, exRespond]) exUserBlob exToken
                [exKeyID] 520 521 522 (Some 8) (Some 5))
       = Inr ([ProofPCommitment (GabiPublicKey 3) 42 8], 5)"
    by (simp add: exResponded GenerateCommitments_exUser exToken_verifies_commitmentData
        exKey_trusted)
  have k: "trustedKeys (run exCore [exCommit1, exRespond, exCommit2]) exKeyID
             = Some (GabiPublicKey 3)"
    by (simp add: exRecommitted exKey_trusted)
  have v: "verifyAccess (run exCore [exCommit1, exRespond, exCommit2]) exUserBlob exToken
             530 531 532 = Inr exUser"
    by (simp add: exRecommitted exToken_verifies_commitmentData)
  have d: "commitmentData (run exCore [exCommit1, exRespond, exCommit2]) 5 = Some 8"
    by (simp add: exRecommitted)
  have four: "fst (GenerateResponse (run exCore [exCommit1, exRespond, exCommit2]) exUserBlob
                exToken 5 12345678 exKeyID 530 531 532 533) = Inr exProof2"
    using GenerateResponse_success[OF exChallenge_in_bounds k v d, of 533]
    by (simp add: exRecommitted exProof2_def exUser_def exCore_fields)
  show ?thesis using one exFirstResponse three four by simp
qed

theorem GenerateResponse_consumes_commit_once_witness:
  "fst (GenerateResponse (run exCore [exCommit1]) exUserBlob exToken 5 12345678 exKeyID
          510 511 512 513) = Inr exProof1
   \<and> \<not> draws_commitID 5 exCommitOther
   \<and> trustedKeys (run exCore [exCommit1]) exKeyID = Some (GabiPublicKey 3)
   \<and> verifyAccess (run exCore [exCommit1]) exUserBlob exToken 530 531 532 = Inr exUser
   \<and> fst (GenerateResponse (run exCore [exCommit1, exRespond, exCommitOther]) exUserBlob
            exToken 5 12345678 exKeyID 530 531 532 533) = Inl ErrUnknownCommit"
proof -
  have q: "\<forall>op \<in> set [exCommitOther]. \<not> draws_commitID 5 op"
    by (simp add: exCommitOther_def)
  have b: "(0::int) \<le> 12345678" "BitLen 12345678 \<le> Lh"
    using exChallenge_in_bounds by simp_all
  have k: "trustedKeys (run exCore [exCommit1]) exKeyID = Some (GabiPublicKey 3)"
    by (simp add: exCommitted exKey_trusted)
  have v: "verifyAccess (run exCore [exCommit1]) exUserBlob exToken 530 531 532 = Inr exUser"
    by (simp add: exCommitted exToken_verifies_commitmentData)
  have st: "run (exCore\<lparr>commitmentData := (commitmentData exCore)(5 := None)\<rparr>) [exCommitOther]
              = run exCore [exCommit1, exRespond, exCommitOther]"
    using run_run[of exCore "[exCommit1, exRespond]" "[exCommitOther]"]
    by (simp add: exResponded)
  show ?thesis
    using GenerateResponse_consumes_commit_once
            [OF exFirstResponse q b k v, of 533] exFirstResponse q k v
    by (simp add: st)
qed














end
